theory Spec2Isabelle
  imports Complex_Main
begin

section \<open>The runtime the snippets run on\<close>

text \<open>
  The notebook \<^verbatim>\<open>00_introducing_asyncio.ipynb\<close> calls the interpreter's builtins and the
  standard library. Their behaviour is written out here as far as the snippets use it:
  exceptions are values of \<open>error\<close>, a call returns \<open>error + 'a\<close>, and everything a
  call does besides returning (printing, sleeping, drawing a random number) is a change of
  an explicit \<open>world\<close>.
\<close>

datatype error =
    ValueError
  | TypeError
  | NameError string
  | SyntaxError string
  | RuntimeError string
  | UnicodeEncodeError

subsection \<open>\<^verbatim>\<open>range\<close> and \<^verbatim>\<open>sum\<close>\<close>

text \<open>
  \<^verbatim>\<open>range(start, stop, step)\<close> raises ValueError for a zero step. Otherwise iterating it
  yields \<open>start\<close>, \<open>start + step\<close>, ... while the value is below \<open>stop\<close> (positive
  step) or above it (negative step).
\<close>

function range_loop :: "int \<Rightarrow> int \<Rightarrow> int \<Rightarrow> int list" where
  "range_loop i stop step =
     (if (0 < step \<and> i < stop) \<or> (step < 0 \<and> stop < i)
      then i # range_loop (i + step) stop step
      else [])"
  by pat_completeness auto
termination
  by (relation "measure (\<lambda>(i, stop, step). if 0 < step then nat (stop - i) else nat (i - stop))")
    auto

declare range_loop.simps [simp del]

definition py_range :: "int \<Rightarrow> int \<Rightarrow> int \<Rightarrow> error + int list" where
  "py_range start stop step =
     (if step = 0 then Inl ValueError else Inr (range_loop start stop step))"

text \<open>\<^verbatim>\<open>sum(xs)\<close> starts from 0 and adds the items from left to right.\<close>

definition py_sum :: "int list \<Rightarrow> int" where
  "py_sum xs = foldl (+) 0 xs"

subsection \<open>The contents of a range, as the language reference gives them\<close>

text \<open>
  The language reference determines the contents of a range \<open>r\<close> by the formula
  \<open>r[i] = start + step * i\<close> with \<open>i \<ge> 0\<close> and \<open>r[i] < stop\<close> for a positive step,
  \<open>r[i] > stop\<close> for a negative one. \<open>range_len\<close> is the number of such \<open>i\<close>.
\<close>

definition range_len :: "int \<Rightarrow> int \<Rightarrow> int \<Rightarrow> nat" where
  "range_len start stop step =
     (if 0 < step \<and> start < stop then nat ((stop - start - 1) div step + 1)
      else if step < 0 \<and> stop < start then nat ((start - stop - 1) div (- step) + 1)
      else 0)"

definition range_items :: "int \<Rightarrow> int \<Rightarrow> int \<Rightarrow> int list" where
  "range_items start stop step =
     map (\<lambda>k. start + int k * step) [0..<range_len start stop step]"

subsection \<open>The world: standard output, the clock, sleeping and the random source\<close>

text \<open>
  \<open>stdout\<close> holds the lines printed so far, one per \<^verbatim>\<open>print\<close> call, and \<open>accepts\<close>
  tells which texts the stream behind standard output can encode. \<open>clock\<close> is what
  \<^verbatim>\<open>time.time()\<close> reads, in seconds. \<open>slept\<close> logs the durations handed to
  \<^verbatim>\<open>time.sleep\<close>. The random source is a sequence of raw draws, \<open>entropy\<close>, of which
  \<open>draws\<close> have been consumed.
\<close>

record world =
  stdout :: "string list"
  accepts :: "string \<Rightarrow> bool"
  clock :: rat
  slept :: "rat list"
  entropy :: "nat \<Rightarrow> nat"
  draws :: nat

type_synonym 'a py = "world \<Rightarrow> (error + 'a) \<times> world"

text \<open>
  \<^verbatim>\<open>print(s)\<close> writes the line, or raises UnicodeEncodeError and writes nothing when
  the stream cannot encode it.
\<close>

definition py_print :: "string \<Rightarrow> unit py" where
  "py_print s w =
     (if accepts w s then (Inr (), w\<lparr>stdout := stdout w @ [s]\<rparr>)
      else (Inl UnicodeEncodeError, w))"

definition time_time :: "world \<Rightarrow> rat" where
  "time_time w = clock w"

text \<open>
  \<^verbatim>\<open>time.sleep(secs)\<close> raises ValueError for a negative duration; otherwise the call
  returns once \<open>secs\<close> seconds have passed (the model lets exactly \<open>secs\<close> pass).
\<close>

definition time_sleep :: "rat \<Rightarrow> unit py" where
  "time_sleep secs w =
     (if secs < 0 then (Inl ValueError, w)
      else (Inr (), w\<lparr>clock := clock w + secs, slept := slept w @ [secs]\<rparr>))"

text \<open>
  \<^verbatim>\<open>random.randint(a, b)\<close> is \<^verbatim>\<open>randrange(a, b + 1)\<close>: with \<open>width = b + 1 - a\<close> it
  raises ValueError unless \<open>width > 0\<close> and returns \<open>a + _randbelow(width)\<close>, where
  \<^verbatim>\<open>_randbelow(n)\<close> is some integer of \<open>[0, n)\<close>, here the next raw draw reduced
  modulo \<open>n\<close>.
\<close>

definition randbelow :: "nat \<Rightarrow> world \<Rightarrow> nat \<times> world" where
  "randbelow n w = (entropy w (draws w) mod n, w\<lparr>draws := Suc (draws w)\<rparr>)"

definition randint :: "int \<Rightarrow> int \<Rightarrow> int py" where
  "randint a b w =
     (let width = b + 1 - a in
      if 0 < width
      then (case randbelow (nat width) w of (r, w') \<Rightarrow> (Inr (a + int r), w'))
      else (Inl ValueError, w))"

text \<open>
  A world for examples: nothing printed yet, a stream that takes every text, the clock at
  0, and raw draws that are all 7.
\<close>

definition sevens :: world where
  "sevens = \<lparr>stdout = [], accepts = (\<lambda>s. True), clock = 0, slept = [],
             entropy = (\<lambda>k. 7), draws = 0\<rparr>"

subsection \<open>Numbers as text\<close>

text \<open>\<^verbatim>\<open>str\<close> of an integer, as an f-string field formats it.\<close>

definition digit :: "nat \<Rightarrow> char" where
  "digit d = ''0123456789'' ! d"

function str_nat :: "nat \<Rightarrow> string" where
  "str_nat n = (if n < 10 then [digit n] else str_nat (n div 10) @ [digit (n mod 10)])"
  by pat_completeness auto
termination
  by (relation "measure id") auto

declare str_nat.simps [simp del]

definition str_int :: "int \<Rightarrow> string" where
  "str_int i = (if i < 0 then CHR ''-'' # str_nat (nat (- i)) else str_nat (nat i))"

section \<open>Cell 5: the first \<^verbatim>\<open>routine\<close>\<close>

text \<open>
  \<^verbatim>\<open>
  def routine(name: str) -> int:
      sleep_time: int = random.randint(1, 5)
      print(f"{name} is sleeping for {sleep_time} seconds.")
      time.sleep(sleep_time)
      print(f"{name} has woken up.")
      return sleep_time**10
  \<close>
\<close>

definition sleeping_text :: "string \<Rightarrow> int \<Rightarrow> string" where
  "sleeping_text name sleep_time =
     name @ '' is sleeping for '' @ str_int sleep_time @ '' seconds.''"

definition woken_text :: "string \<Rightarrow> string" where
  "woken_text name = name @ '' has woken up.''"

definition routine :: "string \<Rightarrow> int py" where
  "routine name w =
     (case randint 1 5 w of
        (Inl e, w1) \<Rightarrow> (Inl e, w1)
      | (Inr sleep_time, w1) \<Rightarrow>
          (case py_print (sleeping_text name sleep_time) w1 of
             (Inl e, w2) \<Rightarrow> (Inl e, w2)
           | (Inr u, w2) \<Rightarrow>
               (case time_sleep (of_int sleep_time) w2 of
                  (Inl e, w3) \<Rightarrow> (Inl e, w3)
                | (Inr u, w3) \<Rightarrow>
                    (case py_print (woken_text name) w3 of
                       (Inl e, w4) \<Rightarrow> (Inl e, w4)
                     | (Inr u, w4) \<Rightarrow> (Inr (sleep_time ^ 10), w4)))))"

section \<open>Cell 23: \<^verbatim>\<open>named_timer\<close>, \<^verbatim>\<open>cpu_bound\<close>, \<^verbatim>\<open>io_bound\<close>\<close>

text \<open>
  \<^verbatim>\<open>
  def named_timer(name: str = "func"):
      def timer(func: typing.Callable):
          def wrapper(*args, **kwargs):
              start = time.time()
              res = func(*args, **kwargs)
              end = round(time.time() - start, 2)
              print(f"{name} elapsed time: {end}")
              return res
          return wrapper
      return timer
  \<close>
  A callable takes its positional arguments and its keyword arguments, may print, sleep
  or draw random numbers, and returns a value or raises.

  The float arithmetic is not computed: the text that \<^verbatim>\<open>end\<close> prints as is a function
  of the two clock readings (the subtraction, \<^verbatim>\<open>round\<close> and the formatting of a float
  are deterministic), which the model takes as the parameter \<open>elapsed\<close>.
\<close>

type_synonym ('a, 'r) callable = "'a list \<Rightarrow> (string \<times> 'a) list \<Rightarrow> 'r py"

definition timing_text :: "(rat \<Rightarrow> rat \<Rightarrow> string) \<Rightarrow> string \<Rightarrow> rat \<Rightarrow> rat \<Rightarrow> string" where
  "timing_text elapsed name start now = name @ '' elapsed time: '' @ elapsed start now"

definition wrapper ::
  "(rat \<Rightarrow> rat \<Rightarrow> string) \<Rightarrow> string \<Rightarrow> ('a, 'r) callable \<Rightarrow> ('a, 'r) callable" where
  "wrapper elapsed name func args kwargs w =
     (let start = time_time w in
      case func args kwargs w of
        (Inl e, w1) \<Rightarrow> (Inl e, w1)
      | (Inr res, w1) \<Rightarrow>
          (case py_print (timing_text elapsed name start (time_time w1)) w1 of
             (Inl e, w2) \<Rightarrow> (Inl e, w2)
           | (Inr u, w2) \<Rightarrow> (Inr res, w2)))"

definition timer ::
  "(rat \<Rightarrow> rat \<Rightarrow> string) \<Rightarrow> string \<Rightarrow> ('a, 'r) callable \<Rightarrow> ('a, 'r) callable" where
  "timer elapsed name func = wrapper elapsed name func"

definition timer_name :: "string option \<Rightarrow> string" where
  "timer_name name = (case name of None \<Rightarrow> ''func'' | Some n \<Rightarrow> n)"

definition named_timer ::
  "(rat \<Rightarrow> rat \<Rightarrow> string) \<Rightarrow> string option \<Rightarrow> ('a, 'r) callable \<Rightarrow> ('a, 'r) callable" where
  "named_timer elapsed name = timer elapsed (timer_name name)"

text \<open>
  \<^verbatim>\<open>
  def io_bound(sleep_time):
      time.sleep(sleep_time)
  \<close>
\<close>

definition io_bound :: "rat \<Rightarrow> unit py" where
  "io_bound sleep_time w = time_sleep sleep_time w"

text \<open>
  \<^verbatim>\<open>
  def cpu_bound(start: int, end: int, step: int):
      return sum([num**2 for num in range(start, end, step)])
  \<close>
\<close>

definition cpu_bound :: "int \<Rightarrow> int \<Rightarrow> int \<Rightarrow> error + int" where
  "cpu_bound start end step =
     (case py_range start end step of
        Inl e \<Rightarrow> Inl e
      | Inr nums \<Rightarrow> Inr (py_sum (map (\<lambda>num. num ^ 2) nums)))"

section \<open>The notebook as a syntax tree\<close>

text \<open>
  The code cells are kept as abstract syntax, with the node names of Python's
  \<^verbatim>\<open>ast\<close> module and only the nodes the notebook uses. Comments are dropped.
\<close>

datatype binop = Sub | Pow

datatype expr =
    Name string
  | Num int
  | Str string
  | JoinedStr "expr list"
  | FormattedValue expr
  | Attribute expr string
  | Call expr "expr list" "keyword list"
  | Starred expr
  | BinOp expr binop expr
  | CompareEq expr expr
  | ListE "expr list"
  | TupleE "expr list"
  | Subscript expr expr
  | ListComp expr string expr
  | Await expr
and keyword = Keyword "string option" expr

text \<open>
  A parameter has a name, an optional annotation and an optional default;
  \<open>Arguments ps v k\<close> are the positional parameters, \<^verbatim>\<open>*v\<close> and \<^verbatim>\<open>**k\<close>.
\<close>

datatype param = Param string "expr option" "expr option"

datatype arguments = Arguments "param list" "string option" "string option"

datatype stmt =
    Import string
  | FunctionDef string arguments "expr option" "stmt list"
  | AsyncFunctionDef string arguments "expr option" "stmt list"
  | Return "expr option"
  | Assign string expr
  | AnnAssign string expr expr
  | Expr expr
  | For string expr "stmt list"
  | If expr "stmt list"
  | Delete expr

text \<open>
  What the notebook file records under a code cell: a stream of text (standard output or
  standard error), the displayed value of the cell's last expression, or an error with
  its \<^verbatim>\<open>ename\<close> and \<^verbatim>\<open>evalue\<close>.
\<close>

datatype stream = Stdout | Stderr

datatype cell_output =
    Stream stream
  | ExecuteResult string
  | Error string string

datatype cell = Markdown | Code "stmt list" "cell_output list"

subsection \<open>The code cells\<close>

definition print_f :: "expr list \<Rightarrow> stmt" where
  "print_f parts = Expr (Call (Name ''print'') [JoinedStr parts] [])"

definition call0 :: "string \<Rightarrow> string \<Rightarrow> expr list \<Rightarrow> expr" where
  "call0 m a args = Call (Attribute (Name m) a) args []"

definition cell_2 :: cell where
  "cell_2 = Code
     [Import ''asyncio'', Import ''inspect'', Import ''random'', Import ''sys'',
      Import ''time'', Import ''threading'', Import ''typing'']
     []"

definition routine_doc :: string where
  "routine_doc = ''A short description of the routine.\<newline>    \<newline>    Parameters\<newline>    ----------\<newline>    name : str\<newline>        the name of routine\<newline>\<newline>    Returns\<newline>    -------\<newline>    int\<newline>        sleep_time ** 10\<newline>    ''"

definition cell_5 :: cell where
  "cell_5 = Code
     [FunctionDef ''routine'' (Arguments [Param ''name'' (Some (Name ''str'')) None] None None)
        (Some (Name ''int''))
        [Expr (Str routine_doc),
         AnnAssign ''sleep_time'' (Name ''int'') (call0 ''random'' ''randint'' [Num 1, Num 5]),
         print_f [FormattedValue (Name ''name''), Str '' is sleeping for '',
                  FormattedValue (Name ''sleep_time''), Str '' seconds.''],
         Expr (call0 ''time'' ''sleep'' [Name ''sleep_time'']),
         print_f [FormattedValue (Name ''name''), Str '' has woken up.''],
         Return (Some (BinOp (Name ''sleep_time'') Pow (Num 10)))],
      Assign ''start'' (call0 ''time'' ''time'' []),
      Assign ''results''
        (ListComp (Call (Name ''routine'') [JoinedStr [Str ''R'', FormattedValue (Name ''i'')]] [])
           ''i'' (Call (Name ''range'') [Num 3, Num 0, Num (- 1)] [])),
      print_f [Str ''Results = '', FormattedValue (Name ''results'')],
      print_f [Str ''Elapsed time: '',
               FormattedValue (Call (Name ''round'')
                 [BinOp (call0 ''time'' ''time'' []) Sub (Name ''start''), Num 2] [])]]
     [Stream Stdout]"

definition refcount_of :: "string \<Rightarrow> expr" where
  "refcount_of x = FormattedValue (call0 ''sys'' ''getrefcount'' [Name x])"

definition cell_16 :: cell where
  "cell_16 = Code
     [Assign ''obj'' (Call (Name ''object'') [] []),
      Assign ''lst'' (ListE []),
      Expr (Call (Name ''print'') [Str ''Empty structures''] []),
      print_f [Str ''obj: refcount = '', refcount_of ''obj''],
      print_f [Str ''lst: refcount = '', refcount_of ''lst'', Str ''\<newline>''],
      Expr (Call (Attribute (Name ''lst'') ''append'') [Name ''obj''] []),
      Expr (Call (Name ''print'') [Str ''lst.append(obj)''] []),
      print_f [Str ''lst: refcount = '', refcount_of ''lst''],
      print_f [Str ''obj: refcount = '', refcount_of ''obj'', Str ''\<newline>''],
      Delete (Subscript (Name ''lst'') (Num 0)),
      print_f [Str ''del lst[0]: refcount = '', refcount_of ''lst'']]
     [Stream Stdout]"

definition cell_23 :: cell where
  "cell_23 = Code
     [FunctionDef ''named_timer''
        (Arguments [Param ''name'' (Some (Name ''str'')) (Some (Str ''func''))] None None) None
        [FunctionDef ''timer''
           (Arguments [Param ''func'' (Some (Attribute (Name ''typing'') ''Callable'')) None]
              None None) None
           [FunctionDef ''wrapper'' (Arguments [] (Some ''args'') (Some ''kwargs'')) None
              [Assign ''start'' (call0 ''time'' ''time'' []),
               Assign ''res''
                 (Call (Name ''func'') [Starred (Name ''args'')] [Keyword None (Name ''kwargs'')]),
               Assign ''end''
                 (Call (Name ''round'')
                    [BinOp (call0 ''time'' ''time'' []) Sub (Name ''start''), Num 2] []),
               print_f [FormattedValue (Name ''name''), Str '' elapsed time: '',
                        FormattedValue (Name ''end'')],
               Return (Some (Name ''res''))],
            Return (Some (Name ''wrapper''))],
         Return (Some (Name ''timer''))],
      FunctionDef ''cpu_bound''
        (Arguments [Param ''start'' (Some (Name ''int'')) None,
                    Param ''end'' (Some (Name ''int'')) None,
                    Param ''step'' (Some (Name ''int'')) None] None None) None
        [Return (Some (Call (Name ''sum'')
           [ListComp (BinOp (Name ''num'') Pow (Num 2)) ''num''
              (Call (Name ''range'') [Name ''start'', Name ''end'', Name ''step''] [])] []))],
      FunctionDef ''io_bound'' (Arguments [Param ''sleep_time'' None None] None None) None
        [Expr (call0 ''time'' ''sleep'' [Name ''sleep_time''])]]
     []"

text \<open>\<^verbatim>\<open>named_timer(label)(func)\<close>, as the cells below write it.\<close>

definition timed :: "string \<Rightarrow> string \<Rightarrow> expr" where
  "timed label func = Call (Call (Name ''named_timer'') [Str label] []) [Name func] []"

definition thread_of :: "string \<Rightarrow> string \<Rightarrow> expr list \<Rightarrow> expr" where
  "thread_of label func args =
     Call (Attribute (Name ''threading'') ''Thread'') []
       [Keyword (Some ''target'') (timed label func), Keyword (Some ''args'') (TupleE args)]"

definition method_call :: "string \<Rightarrow> string \<Rightarrow> stmt" where
  "method_call x m = Expr (Call (Attribute (Name x) m) [] [])"

definition print_since_start :: "string \<Rightarrow> stmt" where
  "print_since_start label =
     print_f [Str label, FormattedValue (BinOp (call0 ''time'' ''time'' []) Sub (Name ''start''))]"

definition cell_25 :: cell where
  "cell_25 = Code
     [Expr (Call (timed ''Squares'' ''cpu_bound'') [Num 1, Num 10000000, Num 1] [])]
     [Stream Stdout, ExecuteResult ''333333283333335000000'']"

definition cell_26 :: cell where
  "cell_26 = Code
     [Assign ''t1'' (thread_of ''T1'' ''cpu_bound'' [Num 1, Num 100000, Num 1]),
      Assign ''t2'' (thread_of ''T2'' ''cpu_bound'' [Num 100000, Num 10000000, Num 1]),
      Assign ''start'' (call0 ''time'' ''time'' []),
      method_call ''t1'' ''start'', method_call ''t2'' ''start'',
      method_call ''t1'' ''join'', method_call ''t2'' ''join'',
      print_since_start ''CPU-bound work time: '']
     [Stream Stdout]"

definition cell_28 :: cell where
  "cell_28 = Code
     [Assign ''start'' (call0 ''time'' ''time'' []),
      Expr (Call (timed ''Sleepy_1'' ''io_bound'') [Num 1] []),
      Expr (Call (timed ''Sleepy_2'' ''io_bound'') [Num 2] []),
      print_since_start ''I/O-bound work time: '']
     [Stream Stdout]"

definition cell_29 :: cell where
  "cell_29 = Code
     [Assign ''t1'' (thread_of ''T1'' ''io_bound'' [Num 1]),
      Assign ''t2'' (thread_of ''T2'' ''io_bound'' [Num 2]),
      Assign ''start'' (call0 ''time'' ''time'' []),
      method_call ''t1'' ''start'', method_call ''t2'' ''start'',
      method_call ''t1'' ''join'', method_call ''t2'' ''join'',
      print_since_start ''I/O-bound work time: '']
     [Stream Stdout]"

definition two_threads :: stmt where
  "two_threads = Assign ''threads''
     (ListE [thread_of ''T1_imp'' ''io_bound'' [Num 1], thread_of ''T2_imp'' ''io_bound'' [Num 2]])"

definition cell_32 :: cell where
  "cell_32 = Code
     [two_threads,
      Assign ''start'' (call0 ''time'' ''time'' []),
      For ''thread'' (Name ''threads'') [method_call ''thread'' ''start'', method_call ''thread'' ''join''],
      print_since_start ''I/O-bound improved (?) work time: '']
     [Stream Stdout]"

definition cell_34 :: cell where
  "cell_34 = Code
     [two_threads,
      Assign ''start'' (call0 ''time'' ''time'' []),
      For ''thread'' (Name ''threads'') [method_call ''thread'' ''start''],
      For ''thread'' (Name ''threads'') [method_call ''thread'' ''join''],
      print_since_start ''I/O-bound improved (!) work time: '']
     [Stream Stdout]"

definition sleeping_line :: stmt where
  "sleeping_line = print_f [Str ''Coroutine is sleeping for '',
     FormattedValue (Name ''sleep_time''), Str '' second[s].'']"

definition sleep_time_args :: arguments where
  "sleep_time_args = Arguments [Param ''sleep_time'' (Some (Name ''int'')) (Some (Num 1))] None None"

definition cell_38 :: cell where
  "cell_38 = Code
     [FunctionDef ''routine'' sleep_time_args (Some (Name ''str''))
        [sleeping_line,
         Expr (call0 ''time'' ''sleep'' [Name ''sleep_time'']),
         Return (Some (Str ''hello, routine.''))],
      print_f [Str ''Is routine? '',
               FormattedValue (call0 ''inspect'' ''isroutine'' [Name ''routine''])],
      Assign ''ro_res'' (Call (Name ''routine'') [] []),
      print_f [Str ''Routine called = '', FormattedValue (Name ''ro_res'')]]
     [Stream Stdout]"

definition cell_40 :: cell where
  "cell_40 = Code
     [AsyncFunctionDef ''coroutine'' sleep_time_args (Some (Name ''str''))
        [sleeping_line,
         Expr (Await (call0 ''asyncio'' ''sleep'' [Name ''sleep_time''])),
         Return (Some (Str ''Hello, coroutine.''))],
      print_f [Str ''Is coroutine? '',
               FormattedValue (call0 ''inspect'' ''iscoroutine'' [Name ''coroutine''])],
      Assign ''coro_called'' (Call (Name ''coroutine'') [] []),
      print_f [Str ''Coroutine called = '', FormattedValue (Name ''coro_called'')],
      Assign ''coro_awaited'' (Await (Name ''coro_called'')),
      print_f [Str ''Coroutine awaited = '', FormattedValue (Name ''coro_awaited'')]]
     [Stream Stdout]"

definition cell_42 :: cell where
  "cell_42 = Code
     [AsyncFunctionDef ''f'' (Arguments [] None None) None
        [Expr (Await (call0 ''asyncio'' ''sleep'' [Num 1]))],
      Expr (Call (Name ''f'') [] []),
      Expr (Await (Call (Name ''f'') [] []))]
     [Stream Stderr]"

definition cell_44 :: cell where
  "cell_44 = Code
     [FunctionDef ''error_routine'' (Arguments [] None None) None
        [Expr (Str ''await is allowed only in async functions (coroutines).''),
         Expr (Await (call0 ''asyncio'' ''sleep'' [Num 1]))]]
     [Error ''SyntaxError'' '''await' outside async function (1940803628.py, line 3)'']"

definition cell_46 :: cell where
  "cell_46 = Code
     [AsyncFunctionDef ''main'' (Arguments [] None None) None
        [Expr (Call (Name ''print'') [Call (Name ''routine'') [] []] []),
         Expr (Call (Name ''print'') [Await (Call (Name ''coroutine'') [] [])] [])]]
     []"

definition cell_47 :: cell where
  "cell_47 = Code
     [If (CompareEq (Name ''__name__'') (Str ''__main__''))
        [Expr (call0 ''asyncio'' ''run'' [Call (Name ''main'') [] []])]]
     [Error ''RuntimeError'' ''asyncio.run() cannot be called from a running event loop'']"

definition cell_49 :: cell where
  "cell_49 = Code [Expr (Await (Call (Name ''main'') [] []))] [Stream Stdout]"

text \<open>The 51 cells of the notebook, in order; the text cells carry no code.\<close>

definition notebook :: "cell list" where
  "notebook =
     [Markdown, Markdown, cell_2, Markdown, Markdown, cell_5, Markdown, Markdown, Markdown,
      Markdown, Markdown, Markdown, Markdown, Markdown, Markdown, Markdown, cell_16, Markdown,
      Markdown, Markdown, Markdown, Markdown, Markdown, cell_23, Markdown, cell_25, cell_26,
      Markdown, cell_28, cell_29, Markdown, Markdown, cell_32, Markdown, cell_34, Markdown,
      Markdown, Markdown, cell_38, Markdown, cell_40, Markdown, cell_42, Markdown, cell_44,
      Markdown, cell_46, cell_47, Markdown, cell_49, Markdown]"

section \<open>Names, bindings and calls of a cell\<close>

subsection \<open>What evaluating an expression does with names\<close>

text \<open>
  Running a cell is followed as far as names go. \<open>Load n\<close> looks the global name
  \<open>n\<close> up (NameError when it is unbound), \<open>Bind k n\<close> binds it, \<open>Invoke x a\<close> calls
  the attribute \<open>a\<close> of what \<open>x\<close> names, and \<open>Deferred n\<close> notes that a function
  defined here reads the global \<open>n\<close> whenever it is called.
\<close>

datatype kind = Module | Function | Variable

datatype event = Load string | Bind kind string | Invoke string string | Deferred string

text \<open>
  Evaluation order: the callee before its arguments, the positional arguments before the
  keyword ones, the call last. The target of a comprehension is local to it.
\<close>

fun events_e :: "expr \<Rightarrow> event list" and events_k :: "keyword \<Rightarrow> event list" where
  "events_e (Name n) = [Load n]"
| "events_e (Num i) = []"
| "events_e (Str s) = []"
| "events_e (JoinedStr es) = concat (map events_e es)"
| "events_e (FormattedValue e) = events_e e"
| "events_e (Attribute e a) = events_e e"
| "events_e (Call f args kws) =
     events_e f @ concat (map events_e args) @ concat (map events_k kws) @
     (case f of Attribute (Name x) a \<Rightarrow> [Invoke x a] | _ \<Rightarrow> [])"
| "events_e (Starred e) = events_e e"
| "events_e (BinOp a op b) = events_e a @ events_e b"
| "events_e (CompareEq a b) = events_e a @ events_e b"
| "events_e (ListE es) = concat (map events_e es)"
| "events_e (TupleE es) = concat (map events_e es)"
| "events_e (Subscript a b) = events_e a @ events_e b"
| "events_e (ListComp elt x it) = events_e it @ filter (\<lambda>ev. ev \<noteq> Load x) (events_e elt)"
| "events_e (Await e) = events_e e"
| "events_k (Keyword k e) = events_e e"

fun loads :: "event list \<Rightarrow> string list" where
  "loads [] = []"
| "loads (Load n # evs) = n # loads evs"
| "loads (ev # evs) = loads evs"

definition names_e :: "expr \<Rightarrow> string list" where
  "names_e e = loads (events_e e)"

definition events_o :: "expr option \<Rightarrow> event list" where
  "events_o eo = (case eo of None \<Rightarrow> [] | Some e \<Rightarrow> events_e e)"

subsection \<open>Function definitions\<close>

fun param_name :: "param \<Rightarrow> string" where
  "param_name (Param n ann dflt) = n"

fun param_default :: "param \<Rightarrow> expr option" where
  "param_default (Param n ann dflt) = dflt"

fun param_annotation :: "param \<Rightarrow> expr option" where
  "param_annotation (Param n ann dflt) = ann"

definition opt_list :: "'a option \<Rightarrow> 'a list" where
  "opt_list x = (case x of None \<Rightarrow> [] | Some y \<Rightarrow> [y])"

fun param_names :: "arguments \<Rightarrow> string list" where
  "param_names (Arguments ps v k) = map param_name ps @ opt_list v @ opt_list k"

text \<open>
  Executing a \<^verbatim>\<open>def\<close> evaluates the defaults, then the annotations of the parameters
  and of the result; the body runs only when the function is called.
\<close>

fun signature_events :: "arguments \<Rightarrow> expr option \<Rightarrow> event list" where
  "signature_events (Arguments ps v k) ret =
     concat (map (\<lambda>p. events_o (param_default p)) ps) @
     concat (map (\<lambda>p. events_o (param_annotation p)) ps) @ events_o ret"

text \<open>The names a statement binds in the scope it stands in.\<close>

fun assigned_s :: "stmt \<Rightarrow> string list" where
  "assigned_s (Import m) = [m]"
| "assigned_s (FunctionDef n args ret body) = [n]"
| "assigned_s (AsyncFunctionDef n args ret body) = [n]"
| "assigned_s (Return eo) = []"
| "assigned_s (Assign x e) = [x]"
| "assigned_s (AnnAssign x ann e) = [x]"
| "assigned_s (Expr e) = []"
| "assigned_s (For x it body) = x # concat (map assigned_s body)"
| "assigned_s (If c body) = concat (map assigned_s body)"
| "assigned_s (Delete e) = []"

text \<open>
  The names a statement of a function body reads. A name is local to a function when it
  is a parameter or is assigned anywhere in the body; the other names a nested function
  reads are read from the enclosing scopes. The annotation of a local variable is not
  evaluated.
\<close>

fun body_names_s :: "stmt \<Rightarrow> string list" where
  "body_names_s (Import m) = []"
| "body_names_s (FunctionDef n args ret body) =
     loads (signature_events args ret) @
     filter (\<lambda>x. x \<notin> set (param_names args @ concat (map assigned_s body)))
       (concat (map body_names_s body))"
| "body_names_s (AsyncFunctionDef n args ret body) =
     loads (signature_events args ret) @
     filter (\<lambda>x. x \<notin> set (param_names args @ concat (map assigned_s body)))
       (concat (map body_names_s body))"
| "body_names_s (Return eo) = loads (events_o eo)"
| "body_names_s (Assign x e) = names_e e"
| "body_names_s (AnnAssign x ann e) = names_e e"
| "body_names_s (Expr e) = names_e e"
| "body_names_s (For x it body) = names_e it @ concat (map body_names_s body)"
| "body_names_s (If c body) = names_e c @ concat (map body_names_s body)"
| "body_names_s (Delete e) = names_e e"

definition free_names :: "arguments \<Rightarrow> stmt list \<Rightarrow> string list" where
  "free_names args body =
     filter (\<lambda>x. x \<notin> set (param_names args @ concat (map assigned_s body)))
       (concat (map body_names_s body))"

subsection \<open>The trace of a cell\<close>

text \<open>
  The statements of a cell run at module level, in order. The body of a loop and the
  body of a conditional are followed once. A \<^verbatim>\<open>def\<close> binds the function's name and
  defers the free names of its body.
\<close>

fun trace_s :: "stmt \<Rightarrow> event list" where
  "trace_s (Import m) = [Bind Module m]"
| "trace_s (FunctionDef n args ret body) =
     signature_events args ret @ Bind Function n # map Deferred (free_names args body)"
| "trace_s (AsyncFunctionDef n args ret body) =
     signature_events args ret @ Bind Function n # map Deferred (free_names args body)"
| "trace_s (Return eo) = events_o eo"
| "trace_s (Assign x e) = events_e e @ [Bind Variable x]"
| "trace_s (AnnAssign x ann e) = events_e e @ events_e ann @ [Bind Variable x]"
| "trace_s (Expr e) = events_e e"
| "trace_s (For x it body) = events_e it @ Bind Variable x # concat (map trace_s body)"
| "trace_s (If c body) = events_e c @ concat (map trace_s body)"
| "trace_s (Delete e) = events_e e"

definition trace :: "stmt list \<Rightarrow> event list" where
  "trace body = concat (map trace_s body)"

subsection \<open>Where \<^verbatim>\<open>await\<close> may stand\<close>

fun has_await :: "expr \<Rightarrow> bool" and has_await_k :: "keyword \<Rightarrow> bool" where
  "has_await (Name n) = False"
| "has_await (Num i) = False"
| "has_await (Str s) = False"
| "has_await (JoinedStr es) = list_ex has_await es"
| "has_await (FormattedValue e) = has_await e"
| "has_await (Attribute e a) = has_await e"
| "has_await (Call f args kws) =
     (has_await f \<or> list_ex has_await args \<or> list_ex has_await_k kws)"
| "has_await (Starred e) = has_await e"
| "has_await (BinOp a op b) = (has_await a \<or> has_await b)"
| "has_await (CompareEq a b) = (has_await a \<or> has_await b)"
| "has_await (ListE es) = list_ex has_await es"
| "has_await (TupleE es) = list_ex has_await es"
| "has_await (Subscript a b) = (has_await a \<or> has_await b)"
| "has_await (ListComp elt x it) = (has_await elt \<or> has_await it)"
| "has_await (Await e) = True"
| "has_await_k (Keyword k e) = has_await e"

definition has_await_o :: "expr option \<Rightarrow> bool" where
  "has_await_o eo = (case eo of None \<Rightarrow> False | Some e \<Rightarrow> has_await e)"

fun signature_has_await :: "arguments \<Rightarrow> expr option \<Rightarrow> bool" where
  "signature_has_await (Arguments ps v k) ret =
     (list_ex (\<lambda>p. has_await_o (param_default p)) ps \<or>
      list_ex (\<lambda>p. has_await_o (param_annotation p)) ps \<or> has_await_o ret)"

text \<open>
  \<open>misplaced_await allowed s\<close>: the statement has an \<^verbatim>\<open>await\<close> where none may stand.
  The body of a \<^verbatim>\<open>def\<close> allows none, the body of an \<^verbatim>\<open>async def\<close> does, and the
  signature of either stands in the enclosing scope.
\<close>

fun misplaced_await :: "bool \<Rightarrow> stmt \<Rightarrow> bool" where
  "misplaced_await allowed (Import m) = False"
| "misplaced_await allowed (FunctionDef n args ret body) =
     ((if allowed then False else signature_has_await args ret) \<or>
      list_ex (misplaced_await False) body)"
| "misplaced_await allowed (AsyncFunctionDef n args ret body) =
     ((if allowed then False else signature_has_await args ret) \<or>
      list_ex (misplaced_await True) body)"
| "misplaced_await allowed (Return eo) = (if allowed then False else has_await_o eo)"
| "misplaced_await allowed (Assign x e) = (if allowed then False else has_await e)"
| "misplaced_await allowed (AnnAssign x ann e) =
     (if allowed then False else has_await ann \<or> has_await e)"
| "misplaced_await allowed (Expr e) = (if allowed then False else has_await e)"
| "misplaced_await allowed (For x it body) =
     ((if allowed then False else has_await it) \<or> list_ex (misplaced_await allowed) body)"
| "misplaced_await allowed (If c body) =
     ((if allowed then False else has_await c) \<or> list_ex (misplaced_await allowed) body)"
| "misplaced_await allowed (Delete e) = (if allowed then False else has_await e)"

text \<open>
  The notebook's kernel (ipykernel) compiles a cell with \<^verbatim>\<open>await\<close> allowed at its top
  level, as cells 40, 42 and 49 use it. A cell that does not compile runs nothing.
\<close>

definition await_message :: string where
  "await_message = '''await' outside async function''"

definition compile_cell :: "stmt list \<Rightarrow> error option" where
  "compile_cell body =
     (if list_ex (misplaced_await True) body then Some (SyntaxError await_message) else None)"

subsection \<open>Running the cells from top to bottom\<close>

text \<open>
  The global namespace maps a name to where its binding comes from: the interpreter
  (the builtins and \<^verbatim>\<open>__name__\<close>), or the cell that bound it last.
\<close>

datatype origin = Predefined | Bound kind nat

type_synonym env = "(string \<times> origin) list"

definition builtin_names :: "string list" where
  "builtin_names =
     [''abs'', ''aiter'', ''all'', ''any'', ''anext'', ''ascii'', ''bin'', ''bool'',
      ''breakpoint'', ''bytearray'', ''bytes'', ''callable'', ''chr'', ''classmethod'',
      ''compile'', ''complex'', ''delattr'', ''dict'', ''dir'', ''divmod'', ''enumerate'',
      ''eval'', ''exec'', ''filter'', ''float'', ''format'', ''frozenset'', ''getattr'',
      ''globals'', ''hasattr'', ''hash'', ''help'', ''hex'', ''id'', ''input'', ''int'',
      ''isinstance'', ''issubclass'', ''iter'', ''len'', ''list'', ''locals'', ''map'',
      ''max'', ''memoryview'', ''min'', ''next'', ''object'', ''oct'', ''open'', ''ord'',
      ''pow'', ''print'', ''property'', ''range'', ''repr'', ''reversed'', ''round'',
      ''set'', ''setattr'', ''slice'', ''sorted'', ''staticmethod'', ''str'', ''sum'',
      ''super'', ''tuple'', ''type'', ''vars'', ''zip'', ''__import__'']"

definition predefined_names :: "string list" where
  "predefined_names = ''__name__'' # builtin_names"

definition initial_env :: env where
  "initial_env = map (\<lambda>n. (n, Predefined)) predefined_names"

definition running_loop_message :: string where
  "running_loop_message = ''asyncio.run() cannot be called from a running event loop''"

text \<open>
  \<open>exec_trace loop_running i env evs\<close> runs the trace of cell \<open>i\<close>. It stops at the
  first name that is not bound, and at \<^verbatim>\<open>asyncio.run\<close> when an event loop is running
  already; the bindings made before stay. A call is not followed into the body of the
  function it calls: what a body reads is in the trace as deferred names only, and
  errors other than these two are not looked for.
\<close>

fun exec_trace :: "bool \<Rightarrow> nat \<Rightarrow> env \<Rightarrow> event list \<Rightarrow> error option \<times> env" where
  "exec_trace lr i env [] = (None, env)"
| "exec_trace lr i env (Load n # evs) =
     (case map_of env n of
        None \<Rightarrow> (Some (NameError n), env)
      | Some og \<Rightarrow> exec_trace lr i env evs)"
| "exec_trace lr i env (Bind k n # evs) = exec_trace lr i ((n, Bound k i) # env) evs"
| "exec_trace lr i env (Invoke x a # evs) =
     (if lr \<and> x = ''asyncio'' \<and> a = ''run'' then (Some (RuntimeError running_loop_message), env)
      else exec_trace lr i env evs)"
| "exec_trace lr i env (Deferred n # evs) = exec_trace lr i env evs"

definition run_cell :: "bool \<Rightarrow> nat \<Rightarrow> env \<Rightarrow> stmt list \<Rightarrow> error option \<times> env" where
  "run_cell lr i env body =
     (case compile_cell body of
        Some e \<Rightarrow> (Some e, env)
      | None \<Rightarrow> exec_trace lr i env (trace body))"

fun source :: "cell \<Rightarrow> stmt list" where
  "source Markdown = []"
| "source (Code body outs) = body"

fun outputs :: "cell \<Rightarrow> cell_output list" where
  "outputs Markdown = []"
| "outputs (Code body outs) = outs"

fun is_code :: "cell \<Rightarrow> bool" where
  "is_code Markdown = False"
| "is_code (Code body outs) = True"

text \<open>
  \<open>run_cells loop_running i env cells\<close> runs the cells in order, the first of them
  being cell \<open>i\<close>, and gives for each its error (if any) and the namespace before it.
  An error ends a cell, not the session: the next cell runs in what is bound so far.
\<close>

fun run_cells :: "bool \<Rightarrow> nat \<Rightarrow> env \<Rightarrow> cell list \<Rightarrow> (error option \<times> env) list" where
  "run_cells lr i env [] = []"
| "run_cells lr i env (c # cs) =
     (case run_cell lr i env (source c) of
        (err, env') \<Rightarrow> (err, env) # run_cells lr (Suc i) env' cs)"

text \<open>The kernel runs an event loop of its own while a cell executes.\<close>

definition run_notebook :: "cell list \<Rightarrow> (error option \<times> env) list" where
  "run_notebook cells = run_cells True 0 initial_env cells"

text \<open>
  \<open>run_alone c\<close>: the cell in a fresh session, where only the interpreter's own names
  are bound. The result is the error its trace meets first, at module level; \<open>None\<close>
  says that the trace meets none, not that every call the cell makes succeeds.
\<close>

definition run_alone :: "cell \<Rightarrow> error option" where
  "run_alone c = fst (run_cell True 0 initial_env (source c))"

subsection \<open>What a cell needs from outside\<close>

text \<open>
  \<open>needs bound evs\<close>: the names the trace reads, at once or deferred, before it has
  bound them itself.
\<close>

fun needs :: "string list \<Rightarrow> event list \<Rightarrow> string list" where
  "needs bound [] = []"
| "needs bound (Load n # evs) = (if n \<in> set bound then [] else [n]) @ needs bound evs"
| "needs bound (Deferred n # evs) = (if n \<in> set bound then [] else [n]) @ needs bound evs"
| "needs bound (Bind k n # evs) = needs (n # bound) evs"
| "needs bound (Invoke x a # evs) = needs bound evs"

definition cell_needs :: "cell \<Rightarrow> string list" where
  "cell_needs c =
     filter (\<lambda>n. n \<notin> set predefined_names) (remdups (needs [] (trace (source c))))"

definition dependencies :: "cell list \<Rightarrow> (nat \<times> string list) list" where
  "dependencies cells =
     concat (map (\<lambda>(i, c). if is_code c then [(i, cell_needs c)] else [])
       (zip [0..<length cells] cells))"

definition self_contained :: "cell list \<Rightarrow> nat list" where
  "self_contained cells = map fst (filter (\<lambda>(i, ns). ns = []) (dependencies cells))"

text \<open>
  \<open>resolution cells\<close>: for each cell \<open>j\<close> and each name \<open>n\<close> it needs, what the
  namespace holds for \<open>n\<close> when cell \<open>j\<close> starts, the notebook being run from the top.
  \<open>crossings\<close> keeps the names found bound by a cell, as \<open>(j, n, k, i)\<close> for a
  binding of kind \<open>k\<close> made by cell \<open>i\<close>; \<open>unresolved\<close> keeps the names not found.
\<close>

definition resolution :: "cell list \<Rightarrow> (nat \<times> string \<times> origin option) list" where
  "resolution cells =
     concat (map (\<lambda>(j, c, (err, env)). map (\<lambda>n. (j, n, map_of env n)) (cell_needs c))
       (zip [0..<length cells] (zip cells (run_notebook cells))))"

fun crossing :: "nat \<times> string \<times> origin option \<Rightarrow> (nat \<times> string \<times> kind \<times> nat) list" where
  "crossing (j, n, Some (Bound k i)) = [(j, n, k, i)]"
| "crossing (j, n, og) = []"

definition crossings :: "cell list \<Rightarrow> (nat \<times> string \<times> kind \<times> nat) list" where
  "crossings cells = concat (map crossing (resolution cells))"

definition unresolved :: "cell list \<Rightarrow> (nat \<times> string) list" where
  "unresolved cells =
     map (\<lambda>(j, n, og). (j, n)) (filter (\<lambda>(j, n, og). og = None) (resolution cells))"

text \<open>The names that more than one cell binds, with the cells that bind them.\<close>

fun binds :: "event list \<Rightarrow> string list" where
  "binds [] = []"
| "binds (Bind k n # evs) = n # binds evs"
| "binds (ev # evs) = binds evs"

definition cell_binds :: "cell list \<Rightarrow> (nat \<times> string list) list" where
  "cell_binds cells =
     map (\<lambda>(i, c). (i, remdups (binds (trace (source c))))) (zip [0..<length cells] cells)"

definition binders :: "(nat \<times> string list) list \<Rightarrow> string \<Rightarrow> nat list" where
  "binders bs n = map fst (filter (\<lambda>(i, ns). n \<in> set ns) bs)"

definition rebound_in :: "(nat \<times> string list) list \<Rightarrow> (string \<times> nat list) list" where
  "rebound_in bs =
     filter (\<lambda>(n, is). 1 < length is)
       (map (\<lambda>n. (n, binders bs n)) (remdups (concat (map snd bs))))"

definition rebound :: "cell list \<Rightarrow> (string \<times> nat list) list" where
  "rebound cells = rebound_in (cell_binds cells)"

subsection \<open>The standard library\<close>


subsection \<open>Imports, definitions and attributes\<close>

text \<open>Every expression node of an expression, itself first.\<close>

fun subexprs :: "expr \<Rightarrow> expr list" and subexprs_k :: "keyword \<Rightarrow> expr list" where
  "subexprs (Name n) = [Name n]"
| "subexprs (Num i) = [Num i]"
| "subexprs (Str s) = [Str s]"
| "subexprs (JoinedStr es) = JoinedStr es # concat (map subexprs es)"
| "subexprs (FormattedValue e) = FormattedValue e # subexprs e"
| "subexprs (Attribute e a) = Attribute e a # subexprs e"
| "subexprs (Call f args kws) =
     Call f args kws # subexprs f @ concat (map subexprs args) @ concat (map subexprs_k kws)"
| "subexprs (Starred e) = Starred e # subexprs e"
| "subexprs (BinOp a op b) = BinOp a op b # subexprs a @ subexprs b"
| "subexprs (CompareEq a b) = CompareEq a b # subexprs a @ subexprs b"
| "subexprs (ListE es) = ListE es # concat (map subexprs es)"
| "subexprs (TupleE es) = TupleE es # concat (map subexprs es)"
| "subexprs (Subscript a b) = Subscript a b # subexprs a @ subexprs b"
| "subexprs (ListComp elt x it) = ListComp elt x it # subexprs it @ subexprs elt"
| "subexprs (Await e) = Await e # subexprs e"
| "subexprs_k (Keyword k e) = subexprs e"

definition subexprs_o :: "expr option \<Rightarrow> expr list" where
  "subexprs_o eo = (case eo of None \<Rightarrow> [] | Some e \<Rightarrow> subexprs e)"

fun exprs_sig :: "arguments \<Rightarrow> expr option \<Rightarrow> expr list" where
  "exprs_sig (Arguments ps v k) ret =
     concat (map (\<lambda>p. subexprs_o (param_default p) @ subexprs_o (param_annotation p)) ps) @
     subexprs_o ret"

text \<open>Every expression node of a statement, function bodies included.\<close>

fun exprs_s :: "stmt \<Rightarrow> expr list" where
  "exprs_s (Import m) = []"
| "exprs_s (FunctionDef n args ret body) = exprs_sig args ret @ concat (map exprs_s body)"
| "exprs_s (AsyncFunctionDef n args ret body) = exprs_sig args ret @ concat (map exprs_s body)"
| "exprs_s (Return eo) = subexprs_o eo"
| "exprs_s (Assign x e) = subexprs e"
| "exprs_s (AnnAssign x ann e) = subexprs ann @ subexprs e"
| "exprs_s (Expr e) = subexprs e"
| "exprs_s (For x it body) = subexprs it @ concat (map exprs_s body)"
| "exprs_s (If c body) = subexprs c @ concat (map exprs_s body)"
| "exprs_s (Delete e) = subexprs e"

text \<open>The expression nodes that stand inside the body of a function definition.\<close>

fun body_exprs_s :: "stmt \<Rightarrow> expr list" where
  "body_exprs_s (FunctionDef n args ret body) = concat (map exprs_s body)"
| "body_exprs_s (AsyncFunctionDef n args ret body) = concat (map exprs_s body)"
| "body_exprs_s (For x it body) = concat (map body_exprs_s body)"
| "body_exprs_s (If c body) = concat (map body_exprs_s body)"
| "body_exprs_s s = []"






definition statements :: "cell list \<Rightarrow> stmt list" where
  "statements cells = concat (map source cells)"


definition body_expressions :: "cell list \<Rightarrow> expr list" where
  "body_expressions cells = concat (map body_exprs_s (statements cells))"






text \<open>
  An attribute is taken from a name (\<^verbatim>\<open>x.a\<close>) or from another expression
  (\<^verbatim>\<open>x.a.b\<close>, \<^verbatim>\<open>f(y).a\<close>, \<^verbatim>\<open>"s".a\<close>). \<open>module_attrs\<close> are the attributes taken from
  an imported name, \<open>object_attrs\<close> those taken from another name, \<open>other_attrs\<close> those
  taken from anything that is not a name.
\<close>

fun attr_on_name :: "expr \<Rightarrow> (string \<times> string) list" where
  "attr_on_name (Attribute (Name x) a) = [(x, a)]"
| "attr_on_name e = []"





subsection \<open>What is called\<close>





subsection \<open>What the functions of the notebook do themselves\<close>

definition body_attrs :: "cell list \<Rightarrow> (string \<times> string) list" where
  "body_attrs cells = remdups (concat (map attr_on_name (body_expressions cells)))"















subsection \<open>What the builtins and the library functions touch\<close>







subsection \<open>What the notebook file records\<close>

fun error_of :: "cell_output \<Rightarrow> (string \<times> string) list" where
  "error_of (Error ename evalue) = [(ename, evalue)]"
| "error_of out = []"

definition recorded_errors :: "cell list \<Rightarrow> (nat \<times> string \<times> string) list" where
  "recorded_errors cells =
     concat (map (\<lambda>(i, c). map (Pair i) (concat (map error_of (outputs c))))
       (zip [0..<length cells] cells))"


section \<open>Properties of \<^verbatim>\<open>cpu_bound\<close>\<close>

lemma py_sum_sum_list: "py_sum xs = sum_list xs"
proof -
  have "foldl (+) a xs = a + sum_list xs" for a :: int
    by (induction xs arbitrary: a) (simp_all add: add.assoc)
  from this [of 0] show ?thesis by (simp add: py_sum_def)
qed

lemma range_len_step_pos:
  assumes "0 < step" "i < stop"
  shows "range_len i stop step = Suc (range_len (i + step) stop step)"
proof (cases "i + step < stop")
  case True
  have "(x + step) div step = x div step + 1" for x
    using assms(1) by (simp add: div_add_self2)
  from this [of "stop - (i + step) - 1"]
  have e: "(stop - i - 1) div step = (stop - (i + step) - 1) div step + 1"
    by (simp add: algebra_simps)
  have "0 \<le> (stop - (i + step) - 1) div step"
    using True assms(1) by (simp add: pos_imp_zdiv_nonneg_iff)
  then show ?thesis
    using True assms e by (simp add: range_len_def nat_add_distrib)
next
  case False
  then have "stop - i - 1 < step" "0 \<le> stop - i - 1"
    using assms by simp_all
  then have "(stop - i - 1) div step = 0"
    by (simp add: div_pos_pos_trivial)
  then show ?thesis
    using False assms by (simp add: range_len_def)
qed

lemma range_len_step_neg:
  assumes "step < 0" "stop < i"
  shows "range_len i stop step = Suc (range_len (i + step) stop step)"
proof (cases "stop < i + step")
  case True
  have "(x + d) div d = x div d + 1" if "0 < d" for x d :: int
    using that by (simp add: div_add_self2)
  from this [of "- step" "i + step - stop - 1"]
  have e: "(i - stop - 1) div (- step) = (i + step - stop - 1) div (- step) + 1"
    using assms(1) by (simp add: algebra_simps)
  have "0 \<le> (i + step - stop - 1) div (- step)"
    using True assms(1) by (simp add: pos_imp_zdiv_nonneg_iff)
  then show ?thesis
    using True assms e by (simp add: range_len_def nat_add_distrib)
next
  case False
  then have "i - stop - 1 < - step" "0 \<le> i - stop - 1"
    using assms by simp_all
  then have "(i - stop - 1) div (- step) = 0"
    by (simp add: div_pos_pos_trivial)
  then show ?thesis
    using False assms by (simp add: range_len_def)
qed

lemma range_len_stopped:
  "\<not> ((0 < step \<and> i < stop) \<or> (step < 0 \<and> stop < i)) \<Longrightarrow> range_len i stop step = 0"
  by (auto simp: range_len_def)

lemma range_items_step:
  assumes "range_len i stop step = Suc (range_len (i + step) stop step)"
  shows "range_items i stop step = i # range_items (i + step) stop step"
proof -
  have "[0..<Suc n] = 0 # map Suc [0..<n]" for n
    by (simp add: upt_conv_Cons map_Suc_upt del: upt_Suc)
  then show ?thesis
    using assms by (simp add: range_items_def comp_def algebra_simps del: upt_Suc)
qed

lemma range_loop_items: "range_loop i stop step = range_items i stop step"
proof (induction i stop step rule: range_loop.induct)
  case (1 i stop step)
  show ?case
  proof (cases "(0 < step \<and> i < stop) \<or> (step < 0 \<and> stop < i)")
    case True
    then have "range_len i stop step = Suc (range_len (i + step) stop step)"
      using range_len_step_pos range_len_step_neg by blast
    then have "range_items i stop step = i # range_items (i + step) stop step"
      by (rule range_items_step)
    moreover have "range_loop i stop step = i # range_loop (i + step) stop step"
      using True by (subst range_loop.simps) simp
    ultimately show ?thesis
      using "1.IH" True by simp
  next
    case False
    then have "range_len i stop step = 0"
      by (rule range_len_stopped)
    then have "range_items i stop step = []"
      by (simp add: range_items_def)
    moreover have "range_loop i stop step = []"
      using False by (subst range_loop.simps) simp
    ultimately show ?thesis by simp
  qed
qed

lemma sum_list_range_items:
  "sum_list (map f (range_items start stop step)) =
     (\<Sum>k<range_len start stop step. f (start + int k * step))"
  by (simp add: range_items_def comp_def sum_list_sum_nth atLeast0LessThan)

text \<open>
  C7. For every \<open>start\<close>, \<open>end\<close> and non-zero \<open>step\<close>, \<open>cpu_bound\<close> returns (and does
  not raise) the sum of the squares of the numbers \<open>start + k * step\<close> of the range, and
  it returns 0 when the range has no item.
\<close>

theorem cpu_bound_sum_of_squares:
  assumes "step \<noteq> 0"
  shows "cpu_bound start end step =
           Inr (\<Sum>k<range_len start end step. (start + int k * step) ^ 2)
         \<and> py_range start end step = Inr (range_items start end step)
         \<and> (if range_items start end step = [] then cpu_bound start end step = Inr 0
            else True)"
proof -
  have r: "py_range start end step = Inr (range_items start end step)"
    using assms by (simp add: py_range_def range_loop_items)
  have c: "cpu_bound start end step =
      Inr (\<Sum>k<range_len start end step. (start + int k * step) ^ 2)"
    by (simp add: cpu_bound_def r py_sum_sum_list sum_list_range_items)
  have "cpu_bound start end step = Inr 0" if "range_items start end step = []"
    using that by (simp add: cpu_bound_def r py_sum_def)
  with r c show ?thesis by simp
qed

theorem cpu_bound_sum_of_squares_witness:
  "(3::int) \<noteq> 0
   \<and> cpu_bound 1 11 3 = Inr (\<Sum>k<range_len 1 11 3. (1 + int k * 3) ^ 2)
   \<and> cpu_bound 1 11 3 = Inr 166
   \<and> py_range 1 11 3 = Inr [1, 4, 7, 10]
   \<and> cpu_bound 5 5 3 = Inr 0"
proof -
  have a: "(3::int) \<noteq> 0" by simp
  have l: "range_len 1 11 3 = 4" "range_len 5 5 3 = 0"
    by (simp_all add: range_len_def)
  have i: "range_items 1 11 3 = [1, 4, 7, 10]" "range_items 5 5 3 = []"
    by (simp_all add: range_items_def l upt_rec)
  have s: "(\<Sum>k<4. (1 + int k * 3) ^ 2) = (166::int)"
    by (simp add: lessThan_nat_numeral lessThan_Suc)
  from cpu_bound_sum_of_squares [OF a, of 1 11] cpu_bound_sum_of_squares [OF a, of 5 5]
  show ?thesis by (simp add: l i s)
qed

text \<open>
  The sequential snippet of cell 25 records the result \<^verbatim>\<open>333333283333335000000\<close> of
  \<^verbatim>\<open>cpu_bound(1, 10000000, 1)\<close>; the model returns the same number.
\<close>

lemma sum_squares_closed:
  "6 * (\<Sum>k<n. (1 + int k) ^ 2) = int n * (int n + 1) * (2 * int n + 1)"
  by (induction n) (simp_all add: algebra_simps power2_eq_square)

lemma cpu_bound_recorded_output: "cpu_bound 1 10000000 1 = Inr 333333283333335000000"
proof -
  have l: "range_len 1 10000000 1 = 9999999"
    by (simp add: range_len_def)
  have "6 * (\<Sum>k<9999999. (1 + int k) ^ 2) =
      int 9999999 * (int 9999999 + 1) * (2 * int 9999999 + 1)"
    by (rule sum_squares_closed)
  then have "(\<Sum>k<9999999. (1 + int k) ^ 2) = 333333283333335000000"
    by simp
  moreover have "cpu_bound 1 10000000 1 =
      Inr (\<Sum>k<range_len 1 10000000 1. (1 + int k * 1) ^ 2)"
    by (simp add: cpu_bound_def py_range_def range_loop_items py_sum_sum_list
        sum_list_range_items)
  ultimately show ?thesis by (simp add: l)
qed

section \<open>Properties of the first \<^verbatim>\<open>routine\<close>\<close>

lemma randint_1_5:
  "randint 1 5 w = (Inr (1 + int (entropy w (draws w) mod 5)), w\<lparr>draws := Suc (draws w)\<rparr>)"
  by (simp add: randint_def randbelow_def)



text \<open>When standard output refuses the first line, the call raises and returns nothing.\<close>

lemma routine_print_refused:
  "\<not> accepts w (sleeping_text name (1 + int (entropy w (draws w) mod 5))) \<Longrightarrow>
   fst (routine name w) = Inl UnicodeEncodeError"
  by (simp add: routine_def randint_1_5 py_print_def)

section \<open>Properties of \<^verbatim>\<open>named_timer\<close>\<close>

text \<open>
  C6. \<open>named_timer\<close> is transparent: for every name, callable and arguments the
  decorated callable passes the arguments on unchanged and returns what the callable
  returns (and raises what it raises), provided standard output takes the timing line.
  Its only other effect is that line, printed after the callable has returned.
\<close>

theorem named_timer_transparent:
  assumes "accepts (snd (func args kwargs w))
             (timing_text elapsed (timer_name name) (clock w) (clock (snd (func args kwargs w))))"
  shows "fst (named_timer elapsed name func args kwargs w) = fst (func args kwargs w)
         \<and> snd (named_timer elapsed name func args kwargs w) =
             (let w1 = snd (func args kwargs w) in
              if isl (fst (func args kwargs w)) then w1
              else w1\<lparr>stdout := stdout w1 @
                     [timing_text elapsed (timer_name name) (clock w) (clock w1)]\<rparr>)"
proof -
  obtain r w1 where f: "func args kwargs w = (r, w1)"
    by (cases "func args kwargs w")
  show ?thesis
    using assms
    by (cases r)
      (simp_all add: f named_timer_def timer_def wrapper_def time_time_def py_print_def)
qed

text \<open>
  \<^verbatim>\<open>named_timer("Sleepy_1")(io_bound)(1)\<close> of cell 28, with \<open>io_bound\<close> handed its
  argument, in the world \<open>sevens\<close> and where one second of sleep prints as \<^verbatim>\<open>1.0\<close>.
\<close>

theorem named_timer_transparent_witness:
  "accepts (snd (io_bound 1 sevens))
     (timing_text (\<lambda>t0 t1. ''1.0'') (timer_name (Some ''Sleepy_1'')) (clock sevens)
        (clock (snd (io_bound 1 sevens))))
   \<and> fst (named_timer (\<lambda>t0 t1. ''1.0'') (Some ''Sleepy_1'')
            (\<lambda>args kwargs. io_bound (hd args)) [1] [] sevens) = Inr ()
   \<and> stdout (snd (named_timer (\<lambda>t0 t1. ''1.0'') (Some ''Sleepy_1'')
            (\<lambda>args kwargs. io_bound (hd args)) [1] [] sevens)) =
       [''Sleepy_1 elapsed time: 1.0'']"
proof -
  have a: "accepts (snd ((\<lambda>args kwargs. io_bound (hd args)) [1] [] sevens))
     (timing_text (\<lambda>t0 t1. ''1.0'') (timer_name (Some ''Sleepy_1'')) (clock sevens)
        (clock (snd ((\<lambda>args kwargs. io_bound (hd args)) [1] [] sevens))))"
    by (simp add: io_bound_def time_sleep_def sevens_def)
  from a named_timer_transparent [where func = "\<lambda>args kwargs. io_bound (hd args)"
      and args = "[1]" and kwargs = "[]" and w = sevens
      and elapsed = "\<lambda>t0 t1. ''1.0''" and name = "Some ''Sleepy_1''", OF a]
  show ?thesis
    by (simp add: io_bound_def time_sleep_def sevens_def timing_text_def timer_name_def)
qed

text \<open>When standard output refuses the timing line, the result of the callable is lost.\<close>

lemma named_timer_print_refused:
  "fst (func args kwargs w) = Inr v \<Longrightarrow>
   \<not> accepts (snd (func args kwargs w))
       (timing_text elapsed (timer_name name) (clock w) (clock (snd (func args kwargs w)))) \<Longrightarrow>
   fst (named_timer elapsed name func args kwargs w) = Inl UnicodeEncodeError"
  by (cases "func args kwargs w")
    (simp add: named_timer_def timer_def wrapper_def time_time_def py_print_def)

section \<open>Properties of the notebook\<close>

subsection \<open>The analyses, evaluated on the notebook\<close>

lemma dependencies_notebook:
  "dependencies notebook =
     [(2, []),
      (5, [''random'', ''time'']),
      (16, [''sys'']),
      (23, [''typing'', ''time'']),
      (25, [''named_timer'', ''cpu_bound'']),
      (26, [''threading'', ''named_timer'', ''cpu_bound'', ''time'']),
      (28, [''named_timer'', ''io_bound'', ''time'']),
      (29, [''threading'', ''named_timer'', ''io_bound'', ''time'']),
      (32, [''threading'', ''named_timer'', ''io_bound'', ''time'']),
      (34, [''threading'', ''named_timer'', ''io_bound'', ''time'']),
      (38, [''time'', ''inspect'']),
      (40, [''asyncio'', ''inspect'']),
      (42, [''asyncio'']),
      (44, [''asyncio'']),
      (46, [''routine'', ''coroutine'']),
      (47, [''asyncio'', ''main'']),
      (49, [''main''])]"
  by code_simp

lemma resolution_notebook:
  "resolution notebook =
     [(5, ''random'', Some (Bound Module 2)), (5, ''time'', Some (Bound Module 2)),
      (16, ''sys'', Some (Bound Module 2)),
      (23, ''typing'', Some (Bound Module 2)), (23, ''time'', Some (Bound Module 2)),
      (25, ''named_timer'', Some (Bound Function 23)),
      (25, ''cpu_bound'', Some (Bound Function 23)),
      (26, ''threading'', Some (Bound Module 2)),
      (26, ''named_timer'', Some (Bound Function 23)),
      (26, ''cpu_bound'', Some (Bound Function 23)), (26, ''time'', Some (Bound Module 2)),
      (28, ''named_timer'', Some (Bound Function 23)),
      (28, ''io_bound'', Some (Bound Function 23)), (28, ''time'', Some (Bound Module 2)),
      (29, ''threading'', Some (Bound Module 2)),
      (29, ''named_timer'', Some (Bound Function 23)),
      (29, ''io_bound'', Some (Bound Function 23)), (29, ''time'', Some (Bound Module 2)),
      (32, ''threading'', Some (Bound Module 2)),
      (32, ''named_timer'', Some (Bound Function 23)),
      (32, ''io_bound'', Some (Bound Function 23)), (32, ''time'', Some (Bound Module 2)),
      (34, ''threading'', Some (Bound Module 2)),
      (34, ''named_timer'', Some (Bound Function 23)),
      (34, ''io_bound'', Some (Bound Function 23)), (34, ''time'', Some (Bound Module 2)),
      (38, ''time'', Some (Bound Module 2)), (38, ''inspect'', Some (Bound Module 2)),
      (40, ''asyncio'', Some (Bound Module 2)), (40, ''inspect'', Some (Bound Module 2)),
      (42, ''asyncio'', Some (Bound Module 2)),
      (44, ''asyncio'', Some (Bound Module 2)),
      (46, ''routine'', Some (Bound Function 38)),
      (46, ''coroutine'', Some (Bound Function 40)),
      (47, ''asyncio'', Some (Bound Module 2)), (47, ''main'', Some (Bound Function 46)),
      (49, ''main'', Some (Bound Function 46))]"
  by code_simp

lemma rebound_notebook:
  "rebound notebook =
     [(''t1'', [26, 29]), (''t2'', [26, 29]), (''threads'', [32, 34]),
      (''start'', [5, 26, 28, 29, 32, 34]), (''thread'', [32, 34]), (''routine'', [5, 38])]"
  by code_simp


lemma crossings_notebook:
  "crossings notebook =
     [(5, ''random'', Module, 2), (5, ''time'', Module, 2), (16, ''sys'', Module, 2),
      (23, ''typing'', Module, 2), (23, ''time'', Module, 2),
      (25, ''named_timer'', Function, 23), (25, ''cpu_bound'', Function, 23),
      (26, ''threading'', Module, 2), (26, ''named_timer'', Function, 23),
      (26, ''cpu_bound'', Function, 23), (26, ''time'', Module, 2),
      (28, ''named_timer'', Function, 23), (28, ''io_bound'', Function, 23),
      (28, ''time'', Module, 2), (29, ''threading'', Module, 2),
      (29, ''named_timer'', Function, 23), (29, ''io_bound'', Function, 23),
      (29, ''time'', Module, 2), (32, ''threading'', Module, 2),
      (32, ''named_timer'', Function, 23), (32, ''io_bound'', Function, 23),
      (32, ''time'', Module, 2), (34, ''threading'', Module, 2),
      (34, ''named_timer'', Function, 23), (34, ''io_bound'', Function, 23),
      (34, ''time'', Module, 2), (38, ''time'', Module, 2), (38, ''inspect'', Module, 2),
      (40, ''asyncio'', Module, 2), (40, ''inspect'', Module, 2),
      (42, ''asyncio'', Module, 2), (44, ''asyncio'', Module, 2),
      (46, ''routine'', Function, 38), (46, ''coroutine'', Function, 40),
      (47, ''asyncio'', Module, 2), (47, ''main'', Function, 46),
      (49, ''main'', Function, 46)]"
  by (simp add: crossings_def resolution_notebook)



















subsection \<open>The claims\<close>

text \<open>
  C2, as the claim states it, fails: cell 25 run alone in a fresh session stops at the
  name \<^verbatim>\<open>named_timer\<close>, which cell 23 defines.
\<close>

theorem cell_25_alone_fails:
  "run_alone (notebook ! 25) = Some (NameError ''named_timer'')"
  by code_simp

text \<open>
  C2, amended. Only the import cell (cell 2) is self-contained. Every other code cell
  refers to names that earlier cells bind: the imported modules and the functions
  \<^verbatim>\<open>named_timer\<close>, \<^verbatim>\<open>cpu_bound\<close>, \<^verbatim>\<open>io_bound\<close>, \<^verbatim>\<open>routine\<close>, \<^verbatim>\<open>coroutine\<close> and
  \<^verbatim>\<open>main\<close>. Run from top to bottom, every cell finds each of these names bound.
\<close>

theorem cells_depend_on_earlier_cells:
  "dependencies notebook =
     [(2, []),
      (5, [''random'', ''time'']),
      (16, [''sys'']),
      (23, [''typing'', ''time'']),
      (25, [''named_timer'', ''cpu_bound'']),
      (26, [''threading'', ''named_timer'', ''cpu_bound'', ''time'']),
      (28, [''named_timer'', ''io_bound'', ''time'']),
      (29, [''threading'', ''named_timer'', ''io_bound'', ''time'']),
      (32, [''threading'', ''named_timer'', ''io_bound'', ''time'']),
      (34, [''threading'', ''named_timer'', ''io_bound'', ''time'']),
      (38, [''time'', ''inspect'']),
      (40, [''asyncio'', ''inspect'']),
      (42, [''asyncio'']),
      (44, [''asyncio'']),
      (46, [''routine'', ''coroutine'']),
      (47, [''asyncio'', ''main'']),
      (49, [''main''])]
   \<and> self_contained notebook = [2]
   \<and> unresolved notebook = []"
  by (simp add: self_contained_def unresolved_def dependencies_notebook resolution_notebook)

text \<open>
  C3, as the claim states it, fails: the binding of \<^verbatim>\<open>named_timer\<close> that cell 23
  creates is the one cell 25 reads.
\<close>

theorem named_timer_crosses_cells:
  "(25, ''named_timer'', Function, 23) \<in> set (crossings notebook)"
  by (simp add: crossings_notebook)

text \<open>
  C3, amended. The bindings that a later cell reads are the modules cell 2 imports and
  the functions cells 23, 38, 40 and 46 define, and no others: no variable that one cell
  assigns is read by another cell. Six names are bound again by later cells:
  \<^verbatim>\<open>t1\<close>, \<^verbatim>\<open>t2\<close>, \<^verbatim>\<open>threads\<close>, \<^verbatim>\<open>start\<close>, \<^verbatim>\<open>thread\<close> and \<^verbatim>\<open>routine\<close>.
\<close>

theorem bindings_crossing_cells:
  "remdups (map (\<lambda>(j, n, k, i). (n, k, i)) (crossings notebook)) =
     [(''random'', Module, 2), (''sys'', Module, 2), (''typing'', Module, 2),
      (''cpu_bound'', Function, 23), (''threading'', Module, 2),
      (''named_timer'', Function, 23), (''io_bound'', Function, 23),
      (''time'', Module, 2), (''inspect'', Module, 2), (''routine'', Function, 38),
      (''coroutine'', Function, 40), (''asyncio'', Module, 2), (''main'', Function, 46)]
   \<and> filter (\<lambda>(j, n, k, i). k = Variable) (crossings notebook) = []
   \<and> rebound notebook =
     [(''t1'', [26, 29]), (''t2'', [26, 29]), (''threads'', [32, 34]),
      (''start'', [5, 26, 28, 29, 32, 34]), (''thread'', [32, 34]), (''routine'', [5, 38])]"
  by (simp add: crossings_notebook rebound_notebook)




end
